theory Spec2Isabelle
  imports Main
begin

section \<open>The script temp_whatsapp_setup.py\<close>

text \<open>
  The source is a module of thirteen statements: two imports (lines 1 and 2) and eleven
  calls of \<^verbatim>\<open>print\<close> on string literals (lines 5 to 15). Line 3 is blank and line 4
  is a comment. The statements are kept as a list, in source order, and executed by the
  functions below.
\<close>

datatype stmt = Import string | Print string

definition nl :: char where
  "nl = CHR 0x0A"

text \<open>The escape \<^verbatim>\<open>\n\<close> at the head of a Python literal is the character \<open>nl\<close>.\<close>

definition script :: "stmt list" where
  "script =
    [Import ''requests'',
     Import ''json'',
     Print ''=== WhatsApp Business API Quick Setup ==='',
     Print (nl # ''1. Go to: https://developers.facebook.com/apps''),
     Print ''2. Click on your WhatsApp app'',
     Print ''3. Go to: WhatsApp > API Setup'',
     Print (nl # ''4. Copy these values:''),
     Print ''   - Temporary access token'',
     Print ''   - Phone number ID (select your +60142779902)'',
     Print ''   - Business Account ID'',
     Print (nl # ''5. Go to: Settings > Basic''),
     Print ''   - Copy App Secret'',
     Print (nl # ''Paste your credentials here when ready!'')]"

subsection \<open>The host and the invocation\<close>

text \<open>
  What the script meets when it is started. The host is the interpreter after its
  startup: \<open>modules\<close> are the module names that the import system finds along the search
  path of this run (\<^verbatim>\<open>requests\<close> is a third-party package, so a host may lack it), and
  \<open>import_ops\<close> gives, for a module name, what the import system does outside the three
  standard streams when the script imports it: searching the path, reading the files of
  the module, writing bytecode caches, and whatever the top-level code of the module does
  (loading \<^verbatim>\<open>requests\<close> probes a socket). That code is outside this repository, so
  it is a parameter; it is taken not to touch standard input, output and error.
  The invocation is what one run is handed: the command-line arguments after the script
  name, the environment variables, the bytes waiting on standard input and the clock.
  Standard output is taken to be writable.
\<close>

datatype sysop = FileRead string | FileWrite string | SocketBind string

record host =
  modules :: "string list"
  import_ops :: "(string \<times> sysop list) list"

definition ops_of :: "host \<Rightarrow> string \<Rightarrow> sysop list" where
  "ops_of h m = (case map_of (import_ops h) m of None \<Rightarrow> [] | Some os \<Rightarrow> os)"

record invocation =
  argv :: "string list"
  environ :: "(string \<times> string) list"
  stdin :: string
  clock :: nat

subsection \<open>Effects, exceptions and the process state\<close>

datatype exn = ModuleNotFoundError string

text \<open>
  Every interaction of the process with the outside world is one entry of a trace.
  \<open>Traceback e\<close> stands for the report of the uncaught exception \<open>e\<close> that the
  interpreter writes to standard error; its exact text depends on the path of the script
  and is not modelled. \<open>Importing m op\<close> is the operation \<open>op\<close> done by the import
  system while the script imports \<open>m\<close>.
\<close>

datatype effect =
    StdoutWrite string
  | Traceback exn
  | StdinRead
  | Importing string sysop

record proc =
  p_environ :: "(string \<times> string) list"
  p_stdin :: string
  globals :: "string list"
  trace :: "effect list"

definition initial :: "invocation \<Rightarrow> proc" where
  "initial i = \<lparr>p_environ = environ i, p_stdin = stdin i, globals = [], trace = []\<rparr>"

text \<open>
  \<^verbatim>\<open>import m\<close> sets the import system to work, with its operations on this host; then
  it binds the name \<open>m\<close> in the module namespace, or raises when the module is not found
  on the search path. \<^verbatim>\<open>print(s)\<close> writes \<open>s\<close> and a newline to standard output.
\<close>

fun exec_stmt :: "host \<Rightarrow> stmt \<Rightarrow> proc \<Rightarrow> exn option \<times> proc" where
  "exec_stmt h (Import m) p =
     (if m \<in> set (modules h)
      then (None, p\<lparr>globals := m # globals p,
                    trace := trace p @ map (Importing m) (ops_of h m)\<rparr>)
      else (Some (ModuleNotFoundError m),
            p\<lparr>trace := trace p @ map (Importing m) (ops_of h m)\<rparr>))"
| "exec_stmt h (Print s) p = (None, p\<lparr>trace := trace p @ [StdoutWrite (s @ [nl])]\<rparr>)"

text \<open>Statements run in order; the first exception ends the module, keeping the state.\<close>

fun exec :: "host \<Rightarrow> stmt list \<Rightarrow> proc \<Rightarrow> exn option \<times> proc" where
  "exec h [] p = (None, p)"
| "exec h (s # ss) p =
     (case exec_stmt h s p of
        (Some e, p') \<Rightarrow> (Some e, p')
      | (None, p') \<Rightarrow> exec h ss p')"

record outcome =
  final :: proc
  exit_code :: nat

text \<open>
  The interpreter runs the module. When the module ends, the exit status is 0; when an
  exception escapes it, the interpreter reports it on standard error and the exit status
  is 1.
\<close>

definition run :: "host \<Rightarrow> invocation \<Rightarrow> outcome" where
  "run h i =
     (case exec h script (initial i) of
        (None, p) \<Rightarrow> \<lparr>final = p, exit_code = 0\<rparr>
      | (Some e, p) \<Rightarrow> \<lparr>final = p\<lparr>trace := trace p @ [Traceback e]\<rparr>, exit_code = 1\<rparr>)"

fun stdout_of :: "effect list \<Rightarrow> string" where
  "stdout_of [] = []"
| "stdout_of (StdoutWrite s # es) = s @ stdout_of es"
| "stdout_of (_ # es) = stdout_of es"

fun stderr_of :: "effect list \<Rightarrow> exn list" where
  "stderr_of [] = []"
| "stderr_of (Traceback e # es) = e # stderr_of es"
| "stderr_of (_ # es) = stderr_of es"

definition stdout :: "outcome \<Rightarrow> string" where
  "stdout r = stdout_of (trace (final r))"

definition stderr :: "outcome \<Rightarrow> exn list" where
  "stderr r = stderr_of (trace (final r))"

definition imports_ok :: "host \<Rightarrow> bool" where
  "imports_ok h = (''requests'' \<in> set (modules h) \<and> ''json'' \<in> set (modules h))"

subsection \<open>From the installation and the environment to the host\<close>









subsection \<open>The text block of the specification\<close>

text \<open>
  The fifteen lines of section 6 of the specification, written from the specification
  and not from the source, and the stream they make when each is ended by a newline.
\<close>

definition spec_block :: "string list" where
  "spec_block =
    [''=== WhatsApp Business API Quick Setup ==='',
     '''',
     ''1. Go to: https://developers.facebook.com/apps'',
     ''2. Click on your WhatsApp app'',
     ''3. Go to: WhatsApp > API Setup'',
     '''',
     ''4. Copy these values:'',
     ''   - Temporary access token'',
     ''   - Phone number ID (select your +60142779902)'',
     ''   - Business Account ID'',
     '''',
     ''5. Go to: Settings > Basic'',
     ''   - Copy App Secret'',
     '''',
     ''Paste your credentials here when ready!'']"

definition spec_stdout :: string where
  "spec_stdout = concat (map (\<lambda>l. l @ [nl]) spec_block)"

subsection \<open>The run as a state machine\<close>

text \<open>
  The same execution, one statement at a time: the configuration is running at a program
  counter, or terminated with an exit status. A running configuration executes the
  statement at its counter and moves to the next one; past the last statement it
  terminates with status 0; an exception terminates it with status 1 after the report
  on standard error.
\<close>

datatype config = Running nat proc | Terminated nat proc

fun step :: "host \<Rightarrow> config \<Rightarrow> config" where
  "step h (Terminated c p) = Terminated c p"
| "step h (Running pc p) =
     (if pc < length script then
        (case exec_stmt h (script ! pc) p of
           (None, p') \<Rightarrow> Running (Suc pc) p'
         | (Some e, p') \<Rightarrow> Terminated 1 (p'\<lparr>trace := trace p' @ [Traceback e]\<rparr>))
      else Terminated 0 p)"

definition start :: "invocation \<Rightarrow> config" where
  "start i = Running 0 (initial i)"

fun is_terminated :: "config \<Rightarrow> bool" where
  "is_terminated (Terminated c p) = True"
| "is_terminated (Running pc p) = False"

fun advances :: "nat \<Rightarrow> config \<Rightarrow> bool" where
  "advances pc (Running pc' p) = (pc' = Suc pc)"
| "advances pc (Terminated c p) = True"

subsection \<open>Observations\<close>

fun is_import :: "stmt \<Rightarrow> bool" where
  "is_import (Import m) = True"
| "is_import (Print s) = False"

fun writes :: "effect list \<Rightarrow> string list" where
  "writes [] = []"
| "writes (StdoutWrite s # es) = s # writes es"
| "writes (_ # es) = writes es"

fun is_stdout_write :: "effect \<Rightarrow> bool" where
  "is_stdout_write (StdoutWrite s) = True"
| "is_stdout_write _ = False"

fun is_report :: "effect \<Rightarrow> bool" where
  "is_report (Traceback e) = True"
| "is_report _ = False"

fun is_import_op :: "effect \<Rightarrow> bool" where
  "is_import_op (Importing m op) = (m = ''requests'' \<or> m = ''json'')"
| "is_import_op _ = False"

fun literals :: "stmt list \<Rightarrow> string list" where
  "literals [] = []"
| "literals (Print s # ss) = s # literals ss"
| "literals (Import m # ss) = literals ss"

definition behaviour :: "outcome \<Rightarrow> string \<times> exn list \<times> nat" where
  "behaviour r = (stdout r, stderr r, exit_code r)"

text \<open>The text after the last newline of a stream: the line left without its end.\<close>

definition unterminated :: "string \<Rightarrow> string" where
  "unterminated s = rev (takeWhile (\<lambda>c. c \<noteq> nl) (rev s))"

fun ends_with_nl :: "string \<Rightarrow> bool" where
  "ends_with_nl [] = False"
| "ends_with_nl s = (last s = nl)"


section \<open>Properties\<close>

subsection \<open>Streams of a trace\<close>

lemma stdout_of_importing [simp]: "stdout_of (map (Importing m) os @ es) = stdout_of es"
  by (induction os) simp_all

lemma stderr_of_importing [simp]: "stderr_of (map (Importing m) os @ es) = stderr_of es"
  by (induction os) simp_all

lemma writes_importing [simp]: "writes (map (Importing m) os @ es) = writes es"
  by (induction os) simp_all

lemma stdin_not_importing [simp]: "StdinRead \<notin> set (map (Importing m) os)"
  by auto

lemma stdin_not_written [simp]: "StdinRead \<notin> set (map (\<lambda>s. StdoutWrite (s @ [nl])) xs)"
  by auto

lemma import_ops_allowed:
  "m = ''requests'' \<or> m = ''json'' \<Longrightarrow>
   list_all (\<lambda>e. is_stdout_write e \<or> is_report e \<or> is_import_op e) (map (Importing m) os)"
  by (induction os) auto

lemma writes_allowed:
  "list_all (\<lambda>e. is_stdout_write e \<or> is_report e \<or> is_import_op e)
     (map (\<lambda>s. StdoutWrite (s @ [nl])) xs)"
  by (induction xs) simp_all

lemma ends_with_nl_snoc: "ends_with_nl (s @ [nl])"
  by (cases s) simp_all

lemma writes_written: "writes (map (\<lambda>s. StdoutWrite (s @ [nl])) xs) = map (\<lambda>s. s @ [nl]) xs"
  by (induction xs) simp_all

lemma written_end_with_nl: "list_all ends_with_nl (map (\<lambda>s. s @ [nl]) xs)"
  by (induction xs) (simp_all add: ends_with_nl_snoc)

subsection \<open>The three courses of a run\<close>

lemma exec_script_ok:
  "imports_ok h \<Longrightarrow>
   exec h script p =
     (None, p\<lparr>globals := ''json'' # ''requests'' # globals p,
              trace := trace p
                @ map (Importing ''requests'') (ops_of h ''requests'')
                @ map (Importing ''json'') (ops_of h ''json'')
                @ map (\<lambda>s. StdoutWrite (s @ [nl])) (literals script)\<rparr>)"
  by (simp add: imports_ok_def script_def)

lemma exec_script_no_requests:
  "''requests'' \<notin> set (modules h) \<Longrightarrow>
   exec h script p =
     (Some (ModuleNotFoundError ''requests''),
      p\<lparr>trace := trace p @ map (Importing ''requests'') (ops_of h ''requests'')\<rparr>)"
  by (simp add: script_def)

lemma exec_script_no_json:
  "''requests'' \<in> set (modules h) \<Longrightarrow> ''json'' \<notin> set (modules h) \<Longrightarrow>
   exec h script p =
     (Some (ModuleNotFoundError ''json''),
      p\<lparr>globals := ''requests'' # globals p,
        trace := trace p
          @ map (Importing ''requests'') (ops_of h ''requests'')
          @ map (Importing ''json'') (ops_of h ''json'')\<rparr>)"
  by (simp add: script_def)

lemma run_ok:
  "imports_ok h \<Longrightarrow>
   run h i =
     \<lparr>final = \<lparr>p_environ = environ i, p_stdin = stdin i,
               globals = [''json'', ''requests''],
               trace = map (Importing ''requests'') (ops_of h ''requests'')
                 @ map (Importing ''json'') (ops_of h ''json'')
                 @ map (\<lambda>s. StdoutWrite (s @ [nl])) (literals script)\<rparr>,
      exit_code = 0\<rparr>"
  by (simp add: run_def exec_script_ok initial_def)

lemma run_no_requests:
  "''requests'' \<notin> set (modules h) \<Longrightarrow>
   run h i =
     \<lparr>final = \<lparr>p_environ = environ i, p_stdin = stdin i, globals = [],
               trace = map (Importing ''requests'') (ops_of h ''requests'')
                 @ [Traceback (ModuleNotFoundError ''requests'')]\<rparr>,
      exit_code = 1\<rparr>"
  by (simp add: run_def exec_script_no_requests initial_def)

lemma run_no_json:
  "''requests'' \<in> set (modules h) \<Longrightarrow> ''json'' \<notin> set (modules h) \<Longrightarrow>
   run h i =
     \<lparr>final = \<lparr>p_environ = environ i, p_stdin = stdin i, globals = [''requests''],
               trace = map (Importing ''requests'') (ops_of h ''requests'')
                 @ map (Importing ''json'') (ops_of h ''json'')
                 @ [Traceback (ModuleNotFoundError ''json'')]\<rparr>,
      exit_code = 1\<rparr>"
  by (simp add: run_def exec_script_no_json initial_def)

lemma host_cases:
  obtains (ok) "imports_ok h"
  | (no_requests) "''requests'' \<notin> set (modules h)"
  | (no_json) "''requests'' \<in> set (modules h)" "''json'' \<notin> set (modules h)"
  unfolding imports_ok_def by blast

lemma stdout_ok: "imports_ok h \<Longrightarrow> stdout (run h i) = spec_stdout"
  by (simp add: run_ok stdout_def spec_stdout_def spec_block_def script_def)

lemma stdout_failed: "\<not> imports_ok h \<Longrightarrow> stdout (run h i) = []"
  by (cases h rule: host_cases) (simp_all add: run_no_requests run_no_json stdout_def)

lemma exit_code_eq: "exit_code (run h i) = (if imports_ok h then 0 else 1)"
  by (cases h rule: host_cases) (simp_all add: run_ok run_no_requests run_no_json imports_ok_def)

lemma stderr_ok: "imports_ok h \<Longrightarrow> stderr (run h i) = []"
  by (simp add: run_ok stderr_def script_def)

lemma behaviour_ok: "imports_ok h \<Longrightarrow> behaviour (run h i) = (spec_stdout, [], 0)"
  by (simp add: behaviour_def stdout_ok stderr_ok exit_code_eq)

lemma behaviour_no_requests:
  "''requests'' \<notin> set (modules h) \<Longrightarrow>
   behaviour (run h i) = ([], [ModuleNotFoundError ''requests''], 1)"
  by (simp add: behaviour_def stdout_def stderr_def run_no_requests)

lemma behaviour_no_json:
  "''requests'' \<in> set (modules h) \<Longrightarrow> ''json'' \<notin> set (modules h) \<Longrightarrow>
   behaviour (run h i) = ([], [ModuleNotFoundError ''json''], 1)"
  by (simp add: behaviour_def stdout_def stderr_def run_no_json)

lemma behaviour_by_resolution:
  assumes "(''requests'' \<in> set (modules h)) = (''requests'' \<in> set (modules h'))"
    and "(''json'' \<in> set (modules h)) = (''json'' \<in> set (modules h'))"
  shows "behaviour (run h i) = behaviour (run h' j)"
proof (cases h rule: host_cases)
  case ok
  then have "imports_ok h'"
    using assms by (simp add: imports_ok_def)
  with ok show ?thesis
    by (simp add: behaviour_ok)
next
  case no_requests
  then have "''requests'' \<notin> set (modules h')"
    using assms by simp
  with no_requests show ?thesis
    by (simp add: behaviour_no_requests)
next
  case no_json
  then have "''requests'' \<in> set (modules h')" "''json'' \<notin> set (modules h')"
    using assms by simp_all
  with no_json show ?thesis
    by (simp add: behaviour_no_json)
qed

lemma behaviour_any: "behaviour (run h i) = behaviour (run h j)"
  by (rule behaviour_by_resolution) simp_all


subsection \<open>The state machine and the run\<close>

lemma length_script: "length script = 13"
  by (simp add: script_def)

lemma machine_ok:
  "imports_ok h \<Longrightarrow>
   (step h ^^ length script) (start i) = Running (length script) (final (run h i))"
  by (simp add: length_script run_ok start_def initial_def eval_nat_numeral)
     (simp add: script_def imports_ok_def)

lemma machine_run:
  "(step h ^^ Suc (length script)) (start i) = Terminated (exit_code (run h i)) (final (run h i))"
proof (cases h rule: host_cases)
  case ok
  have "(step h ^^ Suc (length script)) (start i) = step h ((step h ^^ length script) (start i))"
    by simp
  also have "\<dots> = step h (Running (length script) (final (run h i)))"
    by (simp only: machine_ok [OF ok])
  also have "\<dots> = Terminated 0 (final (run h i))"
    by simp
  finally show ?thesis
    using ok by (simp only: exit_code_eq if_True)
next
  case no_requests
  then show ?thesis
    by (simp add: length_script run_no_requests start_def initial_def eval_nat_numeral funpow_swap1)
       (simp add: script_def)
next
  case no_json
  then show ?thesis
    by (simp add: length_script run_no_json start_def initial_def eval_nat_numeral funpow_swap1)
       (simp add: script_def)
qed

lemma step_advances: "advances pc (step h (Running pc p))"
  by (cases "exec_stmt h (script ! pc) p") (auto split: option.splits)

lemma terminated_stays: "is_terminated c \<Longrightarrow> is_terminated ((step h ^^ k) c)"
  by (induction k) (auto elim: is_terminated.elims)

lemma running_before:
  assumes "imports_ok h" "n \<le> length script"
  shows "\<not> is_terminated ((step h ^^ n) (start i))"
proof
  assume t: "is_terminated ((step h ^^ n) (start i))"
  from assms(2) obtain k where k: "length script = k + n"
    by (metis le_add_diff_inverse2)
  have "is_terminated ((step h ^^ k) ((step h ^^ n) (start i)))"
    using t by (rule terminated_stays)
  then have "is_terminated ((step h ^^ length script) (start i))"
    by (simp add: k funpow_add)
  with machine_ok [OF assms(1)] show False by simp
qed

subsection \<open>The trace of a run\<close>

lemma trace_shape:
  "list_all (\<lambda>e. is_stdout_write e \<or> is_report e \<or> is_import_op e) (trace (final (run h i)))
   \<and> StdinRead \<notin> set (trace (final (run h i)))
   \<and> p_environ (final (run h i)) = environ i
   \<and> p_stdin (final (run h i)) = stdin i"
  by (cases h rule: host_cases)
     (auto simp add: run_ok run_no_requests run_no_json import_ops_allowed writes_allowed)

lemma unterminated_nl: "unterminated (s @ [nl]) = []"
  by (simp add: unterminated_def)

lemma stdout_ok_last:
  "imports_ok h \<Longrightarrow>
   stdout (run h i) =
     concat (map (\<lambda>l. l @ [nl]) (butlast spec_block))
       @ ''Paste your credentials here when ready!'' @ [nl]"
  by (simp add: stdout_ok spec_stdout_def spec_block_def)

lemma writes_run: "list_all ends_with_nl (writes (trace (final (run h i))))"
  by (cases h rule: host_cases)
     (simp_all add: run_ok run_no_requests run_no_json writes_written written_end_with_nl)

lemma writes_failed: "\<not> imports_ok h \<Longrightarrow> writes (trace (final (run h i))) = []"
  by (cases h rule: host_cases) (simp_all add: run_no_requests run_no_json)

subsection \<open>C1: the text written to standard output\<close>

text \<open>
  C1, as stated: run with no arguments, the script writes exactly the text block of
  section 6 to standard output and terminates normally. On a host that has the standard
  library but not the third-party package \<^verbatim>\<open>requests\<close>, line 1 raises before any
  \<^verbatim>\<open>print\<close>: standard output stays empty and the exit status is 1.
\<close>

theorem run_without_requests_misses_block:
  "\<not> (stdout (run \<lparr>modules = [''json''], import_ops = []\<rparr>
                    \<lparr>argv = [], environ = [], stdin = [], clock = 0\<rparr>) = spec_stdout
      \<and> exit_code (run \<lparr>modules = [''json''], import_ops = []\<rparr>
                    \<lparr>argv = [], environ = [], stdin = [], clock = 0\<rparr>) = 0)"
  by (simp add: run_no_requests)

text \<open>
  C1, amended: run with no arguments on a host where both imports succeed, the script
  writes exactly the text block of section 6 to standard output, each line ended by a
  newline and in that order, and terminates normally with exit status 0.
\<close>

theorem run_prints_spec_block:
  "argv i = [] \<Longrightarrow> imports_ok h \<Longrightarrow>
   stdout (run h i) = spec_stdout \<and> exit_code (run h i) = 0"
  by (simp add: stdout_ok exit_code_eq)

theorem run_prints_spec_block_witness:
  "argv \<lparr>argv = [], environ = [], stdin = [], clock = 0\<rparr> = []
   \<and> imports_ok \<lparr>modules = [''requests'', ''json''], import_ops = []\<rparr>
   \<and> stdout (run \<lparr>modules = [''requests'', ''json''], import_ops = []\<rparr>
                  \<lparr>argv = [], environ = [], stdin = [], clock = 0\<rparr>) = spec_stdout
   \<and> exit_code (run \<lparr>modules = [''requests'', ''json''], import_ops = []\<rparr>
                  \<lparr>argv = [], environ = [], stdin = [], clock = 0\<rparr>) = 0"
  using run_prints_spec_block
    [of "\<lparr>argv = [], environ = [], stdin = [], clock = 0\<rparr>"
        "\<lparr>modules = [''requests'', ''json''], import_ops = []\<rparr>"]
  by (simp add: imports_ok_def)

subsection \<open>C2: the frame of the run\<close>




subsection \<open>C3: the exit status\<close>

text \<open>
  C3, as stated: the exit code is 0 for every invocation and the script has no failure
  path. On a host without \<^verbatim>\<open>requests\<close> the first statement raises
  \<^verbatim>\<open>ModuleNotFoundError\<close> and the exit code is 1.
\<close>

theorem run_without_modules_exits_1:
  "exit_code (run \<lparr>modules = [], import_ops = []\<rparr>
                  \<lparr>argv = [''--help''], environ = [], stdin = [], clock = 0\<rparr>) \<noteq> 0"
  by (simp add: run_no_requests)

text \<open>
  C3, amended: the exit code is 0 exactly in the invocations in which both imports succeed,
  whatever the arguments, environment and standard input; the one failure path of the
  script is an import that the host cannot resolve, and it ends the run with exit code 1.
\<close>

theorem exit_code_zero_iff_imports_ok:
  "(exit_code (run h i) = 0) = imports_ok h
   \<and> (exit_code (run h i) = 1) = (\<not> imports_ok h)"
  by (simp add: exit_code_eq)

theorem exit_code_zero_iff_imports_ok_witness:
  "exit_code (run \<lparr>modules = [''requests'', ''json'', ''os''], import_ops = []\<rparr>
                  \<lparr>argv = [''--verbose'', ''x''], environ = [(''TOKEN'', ''abc'')],
                   stdin = ''y'', clock = 3\<rparr>) = 0"
  using exit_code_zero_iff_imports_ok
    [of "\<lparr>modules = [''requests'', ''json'', ''os''], import_ops = []\<rparr>"
        "\<lparr>argv = [''--verbose'', ''x''], environ = [(''TOKEN'', ''abc'')],
          stdin = ''y'', clock = 3\<rparr>"]
  by (simp add: imports_ok_def)

subsection \<open>C4: determinism\<close>

text \<open>
  C4: the script is deterministic. Any two runs of it on a host, that is with the same
  modules found at startup, write the same text to standard output, whatever the two
  invocations are (arguments, environment, standard input, time of the run).
\<close>

theorem stdout_deterministic: "stdout (run h i) = stdout (run h j)"
  using behaviour_any [of h i j] by (simp add: behaviour_def)

subsection \<open>C5: invariance under the input\<close>




subsection \<open>C6: standard error\<close>




subsection \<open>C7: termination\<close>

text \<open>
  C7: the script always terminates, in one linear pass. On every host and for every
  invocation the machine is terminated after at most one step per statement and one
  more, in the configuration that the run gives; a step from a running configuration
  moves the program counter forward by exactly one or terminates, so no statement is
  repeated or retried, and a terminated configuration stays as it is. When the imports
  succeed the machine is still running while any statement is left, so it terminates
  only after the last line is printed.
\<close>

theorem script_terminates:
  "is_terminated ((step h ^^ Suc (length script)) (start i))
   \<and> (step h ^^ Suc (length script)) (start i)
       = Terminated (exit_code (run h i)) (final (run h i))
   \<and> advances pc (step h (Running pc p))
   \<and> step h (Terminated c p) = Terminated c p
   \<and> (imports_ok h \<and> n \<le> length script \<longrightarrow> \<not> is_terminated ((step h ^^ n) (start i)))"
  using running_before [of h n i]
  by (simp add: machine_run step_advances del: funpow.simps step.simps(2))

theorem script_terminates_witness:
  "imports_ok \<lparr>modules = [''requests'', ''json''], import_ops = []\<rparr> \<and> 13 \<le> length script
   \<and> \<not> is_terminated ((step \<lparr>modules = [''requests'', ''json''], import_ops = []\<rparr> ^^ 13)
          (start \<lparr>argv = [], environ = [], stdin = [], clock = 0\<rparr>))
   \<and> is_terminated ((step \<lparr>modules = [''requests'', ''json''], import_ops = []\<rparr> ^^ Suc (length script))
          (start \<lparr>argv = [], environ = [], stdin = [], clock = 0\<rparr>))"
  using script_terminates
    [of "\<lparr>modules = [''requests'', ''json''], import_ops = []\<rparr>"
        "\<lparr>argv = [], environ = [], stdin = [], clock = 0\<rparr>" _ _ _ 13]
  by (simp add: imports_ok_def script_def)

subsection \<open>C8: no partial output when an import fails\<close>

text \<open>
  C8: the two imports are the first two statements and no later statement is an import,
  so both run before any \<^verbatim>\<open>print\<close>; when either import fails, the run writes nothing
  at all to standard output, not even a part of the text block.
\<close>

theorem failed_import_prints_nothing:
  "list_all is_import (take 2 script) \<and> \<not> list_ex is_import (drop 2 script)
   \<and> (\<not> imports_ok h \<longrightarrow>
        stdout (run h i) = [] \<and> writes (trace (final (run h i))) = [])"
  by (simp add: stdout_failed writes_failed) (simp add: script_def)

theorem failed_import_prints_nothing_witness:
  "\<not> imports_ok \<lparr>modules = [''requests''], import_ops = []\<rparr>
   \<and> stdout (run \<lparr>modules = [''requests''], import_ops = []\<rparr>
                  \<lparr>argv = [], environ = [], stdin = ''token'', clock = 2\<rparr>) = []"
  using failed_import_prints_nothing
    [of "\<lparr>modules = [''requests''], import_ops = []\<rparr>"
        "\<lparr>argv = [], environ = [], stdin = ''token'', clock = 2\<rparr>"]
  by (simp add: imports_ok_def)

subsection \<open>C9: the trailing newline\<close>

text \<open>
  C9: every write to standard output ends with a newline, so no run leaves an unfinished
  line after the last newline of its output; in a run that prints the block, standard
  output ends with the line \<^verbatim>\<open>Paste your credentials here when ready!\<close> followed by a
  newline.
\<close>

theorem stdout_lines_end_with_newline:
  "list_all ends_with_nl (writes (trace (final (run h i))))
   \<and> unterminated (stdout (run h i)) = []
   \<and> (imports_ok h \<longrightarrow>
        ends_with_nl (stdout (run h i))
        \<and> (\<exists>pre. stdout (run h i) = pre @ ''Paste your credentials here when ready!'' @ [nl]))"
proof (cases "imports_ok h")
  case True
  have "unterminated (stdout (run h i)) = []"
    using unterminated_nl [of "concat (map (\<lambda>l. l @ [nl]) (butlast spec_block))
       @ ''Paste your credentials here when ready!''"]
    by (simp only: stdout_ok_last [OF True] append_assoc)
  moreover have "ends_with_nl (stdout (run h i))"
    using ends_with_nl_snoc [of "concat (map (\<lambda>l. l @ [nl]) (butlast spec_block))
       @ ''Paste your credentials here when ready!''"]
    by (simp only: stdout_ok_last [OF True] append_assoc)
  moreover have "\<exists>pre. stdout (run h i) = pre @ ''Paste your credentials here when ready!'' @ [nl]"
    using stdout_ok_last [OF True] by blast
  ultimately show ?thesis
    using writes_run [of h i] by blast
next
  case False
  then show ?thesis
    using writes_run [of h i] by (simp add: stdout_failed unterminated_def)
qed

theorem stdout_lines_end_with_newline_witness:
  "imports_ok \<lparr>modules = [''requests'', ''json''], import_ops = []\<rparr>
   \<and> ends_with_nl (stdout (run \<lparr>modules = [''requests'', ''json''], import_ops = []\<rparr>
                     \<lparr>argv = [], environ = [], stdin = [], clock = 9\<rparr>))"
  using stdout_lines_end_with_newline
    [of "\<lparr>modules = [''requests'', ''json''], import_ops = []\<rparr>"
        "\<lparr>argv = [], environ = [], stdin = [], clock = 9\<rparr>"]
  by (simp add: imports_ok_def)

subsection \<open>C10: standard input\<close>

text \<open>
  C10: the script never reads standard input. No run has a read of standard input among
  its effects, the bytes waiting there are left unconsumed, the behaviour is the same
  whatever they are, and the run terminates also when nothing at all is waiting, so it
  does not block after the last line.
\<close>

theorem stdin_never_read:
  "StdinRead \<notin> set (trace (final (run h i)))
   \<and> p_stdin (final (run h i)) = stdin i
   \<and> behaviour (run h (i\<lparr>stdin := s\<rparr>)) = behaviour (run h i)
   \<and> is_terminated ((step h ^^ Suc (length script)) (start (i\<lparr>stdin := []\<rparr>)))"
  using trace_shape [of h i] behaviour_any [of h "i\<lparr>stdin := s\<rparr>" i]
  by (simp add: machine_run del: funpow.simps)

end
